theory Spec2Isabelle
  imports Complex_Main "HOL-Library.AList"
begin

section \<open>Values, exceptions and non-finite results\<close>

text \<open>
  The arrays of \<^verbatim>\<open>recalibrate.py\<close> are numpy arrays of floats. They are modelled as
  lists of reals: the arithmetic of the model is exact, rounding is not modelled.
\<close>

type_synonym vec = "real list"
type_synonym matrix = "real list list"

text \<open>The Python exceptions that the modelled code can raise.\<close>

datatype error =
  IndexError | KeyError | ValueError | TypeError | NameError | UnboundLocalError
  | NotImplementedError | RuntimeError

text \<open>
  What a call does: it returns a value (\<open>Ok\<close>), it raises (\<open>Raise\<close>), or it returns
  without raising an array that holds \<^verbatim>\<open>nan\<close> or \<^verbatim>\<open>inf\<close> after a division by zero or
  a square root of a negative number (\<open>NonFinite\<close>; numpy only warns there). The reals
  have no such values: arithmetic on such an array leaves it not finite, and where it
  is handed to a library function the model stops with \<open>NonFinite\<close>.
\<close>

datatype 'a outcome = Ok 'a | Raise error | NonFinite

definition obind :: "'a outcome \<Rightarrow> ('a \<Rightarrow> 'b outcome) \<Rightarrow> 'b outcome" where
  "obind m f = (case m of Ok a \<Rightarrow> f a | Raise e \<Rightarrow> Raise e | NonFinite \<Rightarrow> NonFinite)"

text \<open>An operation on a scalar applied to every element of an array (numpy broadcasting).\<close>

fun omap :: "('a \<Rightarrow> 'b outcome) \<Rightarrow> 'a list \<Rightarrow> 'b list outcome" where
  "omap f [] = Ok []"
| "omap f (x # xs) = obind (f x) (\<lambda>y. obind (omap f xs) (\<lambda>ys. Ok (y # ys)))"

section \<open>The coordinate scaler\<close>

text \<open>
  \<^verbatim>\<open>scale_interval_m1top1(x,a,b,inverse_scale=False)\<close>, lines 23 to 28. The forward
  direction divides by \<open>b - a\<close>; the inverse divides by the constant 2.
\<close>

definition scale_interval_m1top1 :: "real \<Rightarrow> real \<Rightarrow> real \<Rightarrow> bool \<Rightarrow> real outcome" where
  "scale_interval_m1top1 x a b inverse_scale =
     (if inverse_scale then Ok (((b - a) * x + a + b) / 2)
      else if b - a = 0 then NonFinite
      else Ok ((2 * x - (b + a)) / (b - a)))"

section \<open>Dictionaries\<close>

text \<open>
  A Python dictionary with integer or string keys and float values, as an association
  list in insertion order; a dictionary has no key twice. \<^verbatim>\<open>d[k]\<close> raises
  \<^verbatim>\<open>KeyError\<close> on a missing key, \<^verbatim>\<open>d[k] = v\<close> overwrites the entry in place or
  appends a new one.
\<close>

datatype key = IntKey int | StrKey string

type_synonym pdict = "(key \<times> real) list"

definition getitem :: "pdict \<Rightarrow> key \<Rightarrow> real outcome" where
  "getitem d k = (case map_of d k of None \<Rightarrow> Raise KeyError | Some v \<Rightarrow> Ok v)"

definition setitem :: "pdict \<Rightarrow> key \<Rightarrow> real \<Rightarrow> pdict" where
  "setitem d k v = AList.update k v d"

section \<open>The Legendre coefficient transform\<close>

text \<open>\<^verbatim>\<open>range(start, stop, 2)\<close>.\<close>

definition range_step2 :: "nat \<Rightarrow> nat \<Rightarrow> nat list" where
  "range_step2 start stop = map (\<lambda>k. start + 2 * k) [0..<(stop + 1 - start) div 2]"

text \<open>\<^verbatim>\<open>np.identity(n)\<close>, and the assignment \<^verbatim>\<open>M[i,j] = v\<close> to an entry inside the matrix.\<close>

definition identity :: "nat \<Rightarrow> matrix" where
  "identity n = map (\<lambda>i. map (\<lambda>j. if i = j then 1 else 0) [0..<n]) [0..<n]"

definition set_entry :: "matrix \<Rightarrow> nat \<Rightarrow> nat \<Rightarrow> real \<Rightarrow> matrix" where
  "set_entry M i j v = M[i := (M ! i)[j := v]]"

text \<open>
  \<^verbatim>\<open>LCTransformMatrixP(p,deg=6)\<close>, lines 30 to 36: the identity matrix of size
  \<open>deg + 1\<close>, in which the two nested loops overwrite the entries \<open>(i, j)\<close> for
  \<open>j = i + 1, i + 3, ...\<close> with \<open>p * (i * 2 + 1)\<close>. Its only caller passes
  \<open>deg = len(LC) - 1\<close> for a non-empty \<open>LC\<close>, so \<open>deg\<close> is a natural number.
\<close>

definition LCTransformMatrixP :: "real \<Rightarrow> nat \<Rightarrow> matrix" where
  "LCTransformMatrixP p deg =
     fold (\<lambda>i TM_pix.
             fold (\<lambda>j TM. set_entry TM i j (p * (real i * 2 + 1)))
                  (range_step2 (i + 1) (deg + 1)) TM_pix)
          [0..<deg + 1] (identity (deg + 1))"

text \<open>\<^verbatim>\<open>np.linalg.norm\<close> of a vector, and \<^verbatim>\<open>np.matmul\<close> of a square matrix and a vector.\<close>

definition linalg_norm :: "vec \<Rightarrow> real" where
  "linalg_norm xs = sqrt (sum_list (map (\<lambda>x. x * x) xs))"

definition matmul :: "matrix \<Rightarrow> vec \<Rightarrow> vec" where
  "matmul M v = map (\<lambda>row. sum_list (map2 (*) row v)) M"

text \<open>
  \<^verbatim>\<open>TransformLegendreCoeffs(LC,PVWdic,normP=False)\<close>, lines 38 to 62, in three stages.

  Lines 46 to 49, the wavelength shift \<^verbatim>\<open>T_LC = LC + w\<close>: the right-hand side of
  \<^verbatim>\<open>w[0] = PVWdic['w']\<close> is evaluated first, then the assignment fails on an array of
  length 0.
\<close>

definition wavl_shifted :: "vec \<Rightarrow> pdict \<Rightarrow> vec outcome" where
  "wavl_shifted LC PVWdic =
     obind (getitem PVWdic (StrKey ''w'')) (\<lambda>wv.
       if LC = [] then Raise IndexError
       else let w = (replicate (length LC) 0)[0 := wv] in Ok (map2 (+) LC w))"

text \<open>
  Lines 51 to 57, the pixel shift of \<open>T_LC\<close> (which has the length of \<open>LC\<close>) and, under
  \<open>normP\<close>, the division \<^verbatim>\<open>T_LC /= np.linalg.norm(T_LC)/Original_norm\<close>. Both of its
  divisions are by zero exactly when the norm in the denominator is zero.
\<close>

definition pixel_shifted :: "vec \<Rightarrow> pdict \<Rightarrow> bool \<Rightarrow> vec outcome" where
  "pixel_shifted T_LC PVWdic normP =
     obind (getitem PVWdic (StrKey ''p'')) (\<lambda>p.
       let TM_pix = LCTransformMatrixP p (length T_LC - 1);
           Original_norm = linalg_norm T_LC;
           T = matmul TM_pix T_LC
       in if normP then
            (if Original_norm = 0 then NonFinite
             else let d = linalg_norm T / Original_norm
                  in if d = 0 then NonFinite else Ok (map (\<lambda>x. x / d) T))
          else Ok T)"

text \<open>
  Lines 59 to 62, the velocity shift. A missing \<^verbatim>\<open>'v'\<close> raises also when the rescaled
  array is not finite; a non-finite array stays so under the multiplication.
\<close>

definition TransformLegendreCoeffs :: "vec \<Rightarrow> pdict \<Rightarrow> bool \<Rightarrow> vec outcome" where
  "TransformLegendreCoeffs LC PVWdic normP =
     obind (wavl_shifted LC PVWdic) (\<lambda>T_LC.
       case pixel_shifted T_LC PVWdic normP of
         Raise e \<Rightarrow> Raise e
       | T \<Rightarrow> obind (getitem PVWdic (StrKey ''v'')) (\<lambda>v.
                obind T (\<lambda>T_LC. Ok (map (\<lambda>x. x * (1 + v)) T_LC))))"


subsection \<open>The transform as the specification words it\<close>






section \<open>The libraries and the module's environment\<close>

text \<open>
  \<^verbatim>\<open>scipy.optimize.curve_fit\<close> and \<^verbatim>\<open>scipy.optimize.least_squares\<close> reach the function
  they are given only by calling it. An optimizer is therefore a strategy: it returns
  its result, or raises, or calls the function at a parameter vector and goes on from
  the array the call returns. A strategy is a well-founded tree, so every run makes
  finitely many calls.
\<close>

datatype 'r strategy = Return 'r | Fail error | Call vec "vec \<Rightarrow> 'r strategy"

text \<open>
  A run of a strategy against a function that may change a state \<open>'s\<close> (the error
  function of the Legendre family writes into a dictionary). An exception of the
  function ends the run; so does, in the model, an array that is not finite.
\<close>

primrec run_optimizer ::
  "'r strategy \<Rightarrow> (vec \<Rightarrow> 's \<Rightarrow> vec outcome \<times> 's) \<Rightarrow> 's \<Rightarrow> 'r outcome \<times> 's" where
  "run_optimizer (Return r) f s = (Ok r, s)"
| "run_optimizer (Fail e) f s = (Raise e, s)"
| "run_optimizer (Call params k) f s =
     (case f params s of
        (Ok y, s') \<Rightarrow> run_optimizer (k y) f s'
      | (Raise e, s') \<Rightarrow> (Raise e, s')
      | (NonFinite, s') \<Rightarrow> (NonFinite, s'))"

text \<open>The fields of the result of \<^verbatim>\<open>least_squares\<close> that the module or its helper reads.\<close>

record fitoutput =
  fit_x :: vec
  fit_status :: int
  fit_jac :: matrix

text \<open>
  What the module imports and does not define, as parameters: the numpy and scipy
  functions, each of which may raise; the two optimizers, as strategies chosen from
  their arguments other than the function; \<^verbatim>\<open>calculate_cov_matrix_fromscipylsq\<close> of
  \<^verbatim>\<open>utils\<close>; and the binding of the global name \<^verbatim>\<open>ldeg\<close>, which the module itself never
  makes (\<open>None\<close>). The coordinates given to \<^verbatim>\<open>splrep\<close> can be \<^verbatim>\<open>None\<close>; the last
  argument of \<^verbatim>\<open>splev\<close> is \<^verbatim>\<open>ext\<close>.
\<close>

record 'tck env =
  linspace :: "real \<Rightarrow> real \<Rightarrow> nat \<Rightarrow> vec"
  legfit :: "vec \<Rightarrow> vec \<Rightarrow> int \<Rightarrow> vec outcome"
  legval :: "vec \<Rightarrow> vec \<Rightarrow> vec outcome"
  polyval :: "vec \<Rightarrow> vec \<Rightarrow> vec outcome"
  chebval :: "vec \<Rightarrow> vec \<Rightarrow> vec outcome"
  gradient :: "vec \<Rightarrow> vec outcome"
  splrep :: "vec option \<Rightarrow> vec \<Rightarrow> 'tck outcome"
  splev :: "vec \<Rightarrow> 'tck \<Rightarrow> nat \<Rightarrow> vec outcome"
  curve_fit :: "vec \<Rightarrow> vec \<Rightarrow> vec \<Rightarrow> vec option \<Rightarrow> (vec \<times> matrix) strategy"
  least_squares :: "vec \<Rightarrow> vec \<Rightarrow> fitoutput strategy"
  calculate_cov_matrix_fromscipylsq :: "fitoutput \<Rightarrow> matrix outcome"
  global_ldeg :: "int option"

definition speed_of_light :: real where
  "speed_of_light = 299792458"

section \<open>Arithmetic on arrays\<close>

text \<open>
  Division and square root of floats do not raise in numpy: a division by zero and the
  root of a negative number give a value that is not finite.
\<close>

definition fdiv :: "real \<Rightarrow> real \<Rightarrow> real outcome" where
  "fdiv x y = (if y = 0 then NonFinite else Ok (x / y))"

definition fsqrt :: "real \<Rightarrow> real outcome" where
  "fsqrt x = (if x < 0 then NonFinite else Ok (sqrt x))"

text \<open>
  A binary operation on two arrays under numpy's broadcasting: equal lengths, or one
  of the two of length 1; else \<^verbatim>\<open>ValueError\<close>. The arrays added in
  \<^verbatim>\<open>TransformLegendreCoeffs\<close> have one length by construction.
\<close>

definition broadcast2 :: "(real \<Rightarrow> real \<Rightarrow> real outcome) \<Rightarrow> vec \<Rightarrow> vec \<Rightarrow> vec outcome" where
  "broadcast2 f xs ys =
     (if length xs = length ys then omap (\<lambda>(x, y). f x y) (zip xs ys)
      else if length xs = 1 then omap (\<lambda>y. f (hd xs) y) ys
      else if length ys = 1 then omap (\<lambda>x. f x (hd ys)) xs
      else Raise ValueError)"

section \<open>Default coefficients\<close>

definition is_IntKey :: "key \<Rightarrow> bool" where
  "is_IntKey k = (case k of IntKey _ \<Rightarrow> True | StrKey _ \<Rightarrow> False)"

definition int_keys :: "pdict \<Rightarrow> int list" where
  "int_keys d = List.map_filter (\<lambda>(k, v). case k of IntKey i \<Rightarrow> Some i | StrKey _ \<Rightarrow> None) d"

text \<open>
  One round of the loop of \<^verbatim>\<open>update_coeffs_with_defaults\<close>, lines 70 to 80, for an
  integer key: \<^verbatim>\<open>coeffs[key] = value\<close> where the index is in range (a negative index
  counts from the end), an append where the key is the length, \<^verbatim>\<open>IndexError\<close>
  otherwise. In the driver \<open>coeffs\<close> is the view \<^verbatim>\<open>popt[1:]\<close>: an assignment writes
  through to the buffer of \<open>popt\<close> until \<^verbatim>\<open>np.concatenate\<close> makes \<open>coeffs\<close> a new array.
  The state is \<open>coeffs\<close>, that buffer, and whether \<open>coeffs\<close> is still the view.
\<close>

definition update_at :: "int \<Rightarrow> real \<Rightarrow> vec \<times> vec \<times> bool \<Rightarrow> (vec \<times> vec \<times> bool) outcome" where
  "update_at k v st =
     (case st of (coeffs, buf, view) \<Rightarrow>
        let n = int (length coeffs) in
        if - n \<le> k \<and> k < n then
          let i = nat (if k < 0 then k + n else k)
          in Ok (coeffs[i := v], if view then buf[i := v] else buf, view)
        else if n = k then Ok (coeffs @ [v], buf, False)
        else Raise IndexError)"

fun update_loop :: "pdict \<Rightarrow> int list \<Rightarrow> vec \<times> vec \<times> bool \<Rightarrow> (vec \<times> vec \<times> bool) outcome" where
  "update_loop d [] st = Ok st"
| "update_loop d (k # ks) st =
     obind (getitem d (IntKey k)) (\<lambda>v. obind (update_at k v st) (update_loop d ks))"

text \<open>
  \<^verbatim>\<open>update_coeffs_with_defaults(coeffs,defaultParamDic=None)\<close>, lines 64 to 81, for
  \<open>coeffs\<close> a tuple (copied to a list first) or a numpy array (\<open>is_array\<close>). It returns
  the new \<open>coeffs\<close> and the buffer the array was a view of. Nothing happens for \<^verbatim>\<open>None\<close>
  and for the empty dictionary. \<^verbatim>\<open>sorted\<close> raises \<^verbatim>\<open>TypeError\<close> on keys of both kinds;
  a string key raises \<^verbatim>\<open>TypeError\<close> as the index of a list, and \<^verbatim>\<open>IndexError\<close>, raised
  again by the handler, as the index of an array.
\<close>

definition update_coeffs_with_defaults :: "bool \<Rightarrow> vec \<Rightarrow> pdict option \<Rightarrow> (vec \<times> vec) outcome" where
  "update_coeffs_with_defaults is_array coeffs defaultParamDic =
     (case defaultParamDic of
        None \<Rightarrow> Ok (coeffs, coeffs)
      | Some d \<Rightarrow>
          if d = [] then Ok (coeffs, coeffs)
          else if list_all (\<lambda>(k, v). is_IntKey k) d then
            obind (update_loop d (sort (int_keys d)) (coeffs, coeffs, is_array))
              (\<lambda>(coeffs', buf, view). Ok (coeffs', buf))
          else if list_all (\<lambda>(k, v). \<not> is_IntKey k) d then
            Raise (if is_array then IndexError else TypeError)
          else Raise TypeError)"

section \<open>The model function of the single-family fits\<close>

text \<open>
  \<^verbatim>\<open>transformed_spectrum(FluxSpec, *params, **kwargs)\<close>, lines 83 to 133, with the three
  keyword arguments it reads. \<open>Ok None\<close> is the return of \<^verbatim>\<open>None\<close> for a method that is
  not implemented.
\<close>

definition transformed_spectrum ::
  "'tck env \<Rightarrow> vec \<Rightarrow> vec \<Rightarrow> string option \<Rightarrow> vec option \<Rightarrow> pdict option \<Rightarrow> vec option outcome" where
  "transformed_spectrum env FluxSpec params kw_method kw_WavlCoords kw_defaultParamDic =
     (let Xoriginal = (case kw_WavlCoords of Some X \<Rightarrow> X
                       | None \<Rightarrow> map real [0..<length FluxSpec]);
          method = (case kw_method of Some m \<Rightarrow> m | None \<Rightarrow> ''c'')
      in if params = [] then Raise IndexError
         else
           let scaledFlux = map (\<lambda>x. x * params ! 0) FluxSpec;
               coeffs = (if length (tl params) = 1 then tl params @ [1] else tl params)
           in obind (update_coeffs_with_defaults False coeffs kw_defaultParamDic) (\<lambda>(coeffs, _).
                let Xtransformed =
                  (if method = ''p'' then obind (polyval env Xoriginal coeffs) (\<lambda>X. Ok (Some X))
                   else if method = ''c'' then obind (chebval env Xoriginal coeffs) (\<lambda>X. Ok (Some X))
                   else if method = ''v'' then
                     (if coeffs = [] then Raise IndexError
                      else Ok (Some (map (\<lambda>x. x * (1 + coeffs ! 0 / speed_of_light)) Xoriginal)))
                   else if method = ''x'' then
                     (if length coeffs < 2 then Raise IndexError
                      else obind (gradient env Xoriginal) (\<lambda>g.
                        obind (broadcast2 (\<lambda>a b. Ok (a + b))
                                 (map (\<lambda>x. x * (1 + coeffs ! 0 / speed_of_light)) Xoriginal)
                                 (map (\<lambda>x. coeffs ! 1 * x) g)) (\<lambda>X. Ok (Some X))))
                   else Ok None)
                in obind Xtransformed (\<lambda>Xt.
                     case Xt of
                       None \<Rightarrow> Ok None
                     | Some Xtransformed \<Rightarrow>
                         obind (splrep env (Some Xoriginal) scaledFlux) (\<lambda>tck.
                           obind (splev env Xtransformed tck 3) (\<lambda>y. Ok (Some y))))))"

section \<open>The error function of the Legendre family\<close>

text \<open>The keyword arguments that \<^verbatim>\<open>errorfunc_tominimise\<close> reads from \<^verbatim>\<open>**kwargs\<close>.\<close>

record kwargs =
  kw_WavlCoords :: "vec option"
  kw_LCRef :: "vec option"
  kw_ldeg :: "int option"
  kw_paramstofit :: "string list option"

text \<open>
  The loop \<^verbatim>\<open>for i,s in enumerate(paramstring): PVWdic[s] = params[i+1]\<close> of lines 163
  to 164 and of lines 335 to 336, from index \<open>i\<close> on: it stops with \<^verbatim>\<open>IndexError\<close> at
  the first index beyond \<open>params\<close>, the earlier assignments done.
\<close>

fun store_roles :: "string list \<Rightarrow> vec \<Rightarrow> nat \<Rightarrow> pdict \<Rightarrow> unit outcome \<times> pdict" where
  "store_roles [] params i PVWdic = (Ok (), PVWdic)"
| "store_roles (s # ss) params i PVWdic =
     (if i + 1 < length params
      then store_roles ss params (i + 1) (setitem PVWdic (StrKey s) (params ! (i + 1)))
      else (Raise IndexError, PVWdic))"

text \<open>Lines 166 to 168 and 338 to 340: the flag that asks for the rescaling.\<close>

definition normP_of :: "string list \<Rightarrow> bool" where
  "normP_of paramstring \<longleftrightarrow> ''p'' \<in> set paramstring \<and> ''v'' \<in> set paramstring"

text \<open>
  Lines 146 to 178 of \<^verbatim>\<open>errorfunc_tominimise\<close> for \<^verbatim>\<open>method == 'l'\<close>: the predicted
  spectrum, from the scaled flux of line 144, and the dictionary of the caller as the
  call leaves it. In line 157 the name \<^verbatim>\<open>ldeg\<close> is not a local of the function: it is
  looked up among the globals of the module, after the other two arguments of the call.
  A name that was never assigned raises \<^verbatim>\<open>UnboundLocalError\<close> where it is read.
\<close>

definition legendre_predicted ::
  "'tck env \<Rightarrow> vec \<Rightarrow> vec \<Rightarrow> vec \<Rightarrow> pdict option \<Rightarrow> kwargs \<Rightarrow> vec outcome \<times> pdict option" where
  "legendre_predicted env params RefSpectrum scaledFlux defaultParamDic kw =
     (let grid = linspace env (- 1) 1 (length RefSpectrum);
          Xoriginal = kw_WavlCoords kw;
          bound =
            (case kw_LCRef kw of
               Some LCRef \<Rightarrow>
                 (case Xoriginal of
                    None \<Rightarrow> obind (legval env grid LCRef) (\<lambda>X. Ok (Some LCRef, Some X))
                  | Some X \<Rightarrow> Ok (Some LCRef, Some X))
             | None \<Rightarrow>
                 (case (kw_ldeg kw, Xoriginal) of
                    (Some _, Some X) \<Rightarrow>
                      (case global_ldeg env of
                         None \<Rightarrow> Raise NameError
                       | Some ldeg \<Rightarrow> obind (legfit env grid X ldeg) (\<lambda>LCRef. Ok (Some LCRef, Some X)))
                  | _ \<Rightarrow> Ok (None, Xoriginal)))
      in case bound of
           Raise e \<Rightarrow> (Raise e, defaultParamDic)
         | NonFinite \<Rightarrow> (NonFinite, defaultParamDic)
         | Ok (LCRef, Xoriginal) \<Rightarrow>
             (case kw_paramstofit kw of
                None \<Rightarrow> (Raise KeyError, defaultParamDic)
              | Some paramstring \<Rightarrow>
                  let PVWdic0 = (case defaultParamDic of
                                   None \<Rightarrow> [(StrKey ''v'', 0), (StrKey ''p'', 0), (StrKey ''w'', 0)]
                                 | Some d \<Rightarrow> d);
                      (stored, PVWdic) = store_roles paramstring params 0 PVWdic0;
                      caller = (case defaultParamDic of None \<Rightarrow> None | Some _ \<Rightarrow> Some PVWdic)
                  in (obind stored (\<lambda>_.
                        case LCRef of
                          None \<Rightarrow> Raise UnboundLocalError
                        | Some LCRef \<Rightarrow>
                            obind (TransformLegendreCoeffs LCRef PVWdic (normP_of paramstring)) (\<lambda>LCnew.
                              obind (legval env grid LCnew) (\<lambda>Xtransformed.
                                obind (splrep env Xoriginal scaledFlux) (\<lambda>tck.
                                  splev env Xtransformed tck 0)))),
                      caller)))"

text \<open>
  Lines 179 to 181: the returned array. \<open>sigma\<close> is \<^verbatim>\<open>None\<close> (then the scalar 1) or an
  array; the subtraction of \<^verbatim>\<open>None\<close> raises \<^verbatim>\<open>TypeError\<close>.
\<close>

definition residual_vector ::
  "real \<Rightarrow> vec \<Rightarrow> vec option \<Rightarrow> vec option \<Rightarrow> vec \<Rightarrow> vec outcome" where
  "residual_vector Reg params DataToFit sigma PredictedSpectrum =
     (case DataToFit of
        None \<Rightarrow> Raise TypeError
      | Some Data \<Rightarrow>
          (case obind (broadcast2 (\<lambda>x y. Ok (x - y)) PredictedSpectrum Data) (\<lambda>diff.
                  case sigma of
                    None \<Rightarrow> omap (\<lambda>x. fdiv x 1) diff
                  | Some sg \<Rightarrow> broadcast2 fdiv diff sg) of
             Raise e \<Rightarrow> Raise e
           | res \<Rightarrow>
               obind res (\<lambda>res.
                 obind (omap (\<lambda>x. fsqrt (Reg * \<bar>x\<bar>)) (tl params)) (\<lambda>penalty.
                   Ok (res @ penalty)))))"

text \<open>
  \<^verbatim>\<open>errorfunc_tominimise(params,method='l',Reg=0,RefSpectrum=None,DataToFit=None,
  sigma=None,defaultParamDic=None,**kwargs)\<close>, lines 136 to 181. It returns the residual
  array, or \<^verbatim>\<open>None\<close> (\<open>Ok None\<close>) for another method, and the dictionary of the caller.
\<close>

definition errorfunc_tominimise ::
  "'tck env \<Rightarrow> vec \<Rightarrow> string \<Rightarrow> real \<Rightarrow> vec option \<Rightarrow> vec option \<Rightarrow> vec option \<Rightarrow> pdict option
     \<Rightarrow> kwargs \<Rightarrow> vec option outcome \<times> pdict option" where
  "errorfunc_tominimise env params method Reg RefSpectrum DataToFit sigma defaultParamDic kw =
     (if params = [] then (Raise IndexError, defaultParamDic)
      else case RefSpectrum of
        None \<Rightarrow> (Raise TypeError, defaultParamDic)
      | Some RefSpectrum \<Rightarrow>
          let scaledFlux = map (\<lambda>x. x * params ! 0) RefSpectrum
          in if method = ''l'' then
               (case legendre_predicted env params RefSpectrum scaledFlux defaultParamDic kw of
                  (PredictedSpectrum, caller) \<Rightarrow>
                    (obind PredictedSpectrum (\<lambda>P.
                       obind (residual_vector Reg params DataToFit sigma P) (\<lambda>r. Ok (Some r))),
                     caller))
             else (Ok None, defaultParamDic))"

section \<open>The driver\<close>

text \<open>
  \<^verbatim>\<open>str.isdigit\<close> and \<^verbatim>\<open>int\<close> on the characters of the model, which are ASCII:
  \<^verbatim>\<open>s.isdigit()\<close> holds for a non-empty string of decimal digits, and \<^verbatim>\<open>int\<close> reads such
  a string in base 10.
\<close>

definition isdigit :: "char \<Rightarrow> bool" where
  "isdigit c \<longleftrightarrow> c \<in> set ''0123456789''"

definition str_isdigit :: "string \<Rightarrow> bool" where
  "str_isdigit s \<longleftrightarrow> s \<noteq> [] \<and> list_all isdigit s"

definition int_of_digits :: "string \<Rightarrow> nat" where
  "int_of_digits s = foldl (\<lambda>n c. 10 * n + (of_char c - 48)) 0 s"

text \<open>The builtins \<^verbatim>\<open>min\<close> and \<^verbatim>\<open>max\<close> on an array: \<^verbatim>\<open>ValueError\<close> when it is empty.\<close>

definition py_min :: "vec \<Rightarrow> real outcome" where
  "py_min xs = (case xs of [] \<Rightarrow> Raise ValueError | x # r \<Rightarrow> Ok (fold min r x))"

definition py_max :: "vec \<Rightarrow> real outcome" where
  "py_max xs = (case xs of [] \<Rightarrow> Raise ValueError | x # r \<Rightarrow> Ok (fold max r x))"

text \<open>Lines 220 to 223: the wavelengths scaled to the interval from -1 to 1, or as they are.\<close>

definition scaled_wavelengths :: "vec \<Rightarrow> bool \<Rightarrow> vec outcome" where
  "scaled_wavelengths RefWavl scalepixel =
     (if scalepixel then
        obind (py_min RefWavl) (\<lambda>a. obind (py_max RefWavl) (\<lambda>b.
          omap (\<lambda>x. scale_interval_m1top1 x a b False) RefWavl))
      else Ok RefWavl)"

text \<open>
  What an optimizer gets from a call of its function: the array, and \<^verbatim>\<open>TypeError\<close> from
  its arithmetic on \<^verbatim>\<open>None\<close>. The driver only passes methods for which the functions
  return arrays.
\<close>

definition returned_array :: "vec option outcome \<Rightarrow> vec outcome" where
  "returned_array r = obind r (\<lambda>y. case y of None \<Rightarrow> Raise TypeError | Some a \<Rightarrow> Ok a)"

text \<open>
  \<^verbatim>\<open>optimize.curve_fit(f, RefFlux, SpectrumY, p0=p0, sigma=sigma)\<close> for \<open>f\<close> the partial
  application of \<^verbatim>\<open>transformed_spectrum\<close>, which changes no state.
\<close>

definition run_curve_fit ::
  "'tck env \<Rightarrow> (vec \<Rightarrow> vec option outcome) \<Rightarrow> vec \<Rightarrow> vec \<Rightarrow> vec \<Rightarrow> vec option \<Rightarrow> (vec \<times> matrix) outcome" where
  "run_curve_fit env f xdata ydata p0 sigma =
     fst (run_optimizer (curve_fit env xdata ydata p0 sigma)
            (\<lambda>params u. (returned_array (f params), u)) ())"

text \<open>
  Lines 226 to 248 for the family \<^verbatim>\<open>'p'\<close> and lines 251 to 273 for the family \<^verbatim>\<open>'c'\<close>,
  which differ in the letter and in the evaluation (\<^verbatim>\<open>polyval\<close>, \<^verbatim>\<open>chebval\<close>) only. The
  result is \<^verbatim>\<open>transformed_scaledWavl\<close>, \<open>popt\<close> and \<open>pcov\<close>; the defaults are written into
  \<open>popt\<close> through the view \<^verbatim>\<open>popt[1:]\<close>.
\<close>

definition fit_polynomial ::
  "'tck env \<Rightarrow> string \<Rightarrow> vec \<Rightarrow> vec \<Rightarrow> vec \<Rightarrow> nat \<Rightarrow> vec option \<Rightarrow> vec option \<Rightarrow> pdict option
     \<Rightarrow> (vec \<times> vec \<times> matrix) outcome" where
  "fit_polynomial env family scaledWavl RefFlux SpectrumY deg initial_guess sigma defaultParamDic =
     (let p0 = (case initial_guess of
                  Some g \<Rightarrow> g
                | None \<Rightarrow> if deg > 0 then [1, 0, 1] @ replicate (deg - 1) 0 else [1, 0])
      in obind (run_curve_fit env
                  (\<lambda>params. transformed_spectrum env RefFlux params (Some family)
                               (Some scaledWavl) defaultParamDic)
                  RefFlux SpectrumY p0 sigma) (\<lambda>(popt, pcov).
           let popt = (if deg < 1 then popt @ [1] else popt);
               coeffs = drop 1 popt
           in obind (update_coeffs_with_defaults True coeffs defaultParamDic) (\<lambda>(coeffs, buf).
                obind ((if family = ''p'' then polyval env else chebval env) scaledWavl coeffs)
                  (\<lambda>transformed_scaledWavl.
                     Ok (transformed_scaledWavl, take 1 popt @ buf, pcov)))))"

text \<open>Lines 276 to 286, the family \<^verbatim>\<open>'v'\<close>: the wavelength solution, \<open>popt\<close> and \<open>pcov\<close>.\<close>

definition fit_velocity ::
  "'tck env \<Rightarrow> vec \<Rightarrow> vec \<Rightarrow> vec \<Rightarrow> vec option \<Rightarrow> vec option \<Rightarrow> pdict option
     \<Rightarrow> (vec \<times> vec \<times> matrix) outcome" where
  "fit_velocity env RefWavl RefFlux SpectrumY initial_guess sigma defaultParamDic =
     (let p0 = (case initial_guess of Some g \<Rightarrow> g | None \<Rightarrow> [1, 100])
      in obind (run_curve_fit env
                  (\<lambda>params. transformed_spectrum env RefFlux params (Some ''v'')
                               (Some RefWavl) defaultParamDic)
                  RefFlux SpectrumY p0 sigma) (\<lambda>(popt, pcov).
           if length popt < 2 then Raise IndexError
           else Ok (map (\<lambda>x. x * (1 + popt ! 1 / speed_of_light)) RefWavl, popt, pcov)))"

text \<open>Lines 289 to 299, the family \<^verbatim>\<open>'x'\<close>.\<close>

definition fit_velocity_pixel ::
  "'tck env \<Rightarrow> vec \<Rightarrow> vec \<Rightarrow> vec \<Rightarrow> vec option \<Rightarrow> vec option \<Rightarrow> pdict option
     \<Rightarrow> (vec \<times> vec \<times> matrix) outcome" where
  "fit_velocity_pixel env RefWavl RefFlux SpectrumY initial_guess sigma defaultParamDic =
     (let p0 = (case initial_guess of Some g \<Rightarrow> g | None \<Rightarrow> [1, 100, 0])
      in obind (run_curve_fit env
                  (\<lambda>params. transformed_spectrum env RefFlux params (Some ''x'')
                               (Some RefWavl) defaultParamDic)
                  RefFlux SpectrumY p0 sigma) (\<lambda>(popt, pcov).
           if length popt < 3 then Raise IndexError
           else obind (gradient env RefWavl) (\<lambda>g.
                  obind (broadcast2 (\<lambda>a b. Ok (a + b))
                           (map (\<lambda>x. x * (1 + popt ! 1 / speed_of_light)) RefWavl)
                           (map (\<lambda>x. popt ! 2 * x) g)) (\<lambda>wavl_sln.
                    Ok (wavl_sln, popt, pcov)))))"

text \<open>
  Lines 325 to 327: the error function as \<^verbatim>\<open>least_squares\<close> calls it, on the parameters
  and the dictionary \<open>PVWdic\<close> that every call writes the parameters into.
\<close>

definition l_errorfunc_tominimise ::
  "'tck env \<Rightarrow> real \<Rightarrow> string list \<Rightarrow> vec \<Rightarrow> vec \<Rightarrow> vec \<Rightarrow> vec option \<Rightarrow> vec
     \<Rightarrow> vec \<Rightarrow> pdict \<Rightarrow> vec outcome \<times> pdict" where
  "l_errorfunc_tominimise env Reg paramstring RefWavl RefFlux SpectrumY sigma LCRef params PVWdic =
     (case errorfunc_tominimise env params ''l'' Reg (Some RefFlux) (Some SpectrumY) sigma
             (Some PVWdic)
             \<lparr>kw_WavlCoords = Some RefWavl, kw_LCRef = Some LCRef, kw_ldeg = None,
              kw_paramstofit = Some paramstring\<rparr> of
        (r, d) \<Rightarrow> (returned_array r, case d of None \<Rightarrow> PVWdic | Some d' \<Rightarrow> d'))"

text \<open>The dictionaries of lines 317 and 323.\<close>

definition Initp :: pdict where
  "Initp = [(StrKey ''v'', 1 / 10 ^ 6), (StrKey ''p'', 1 / 10 ^ 6), (StrKey ''w'', 1 / 10 ^ 3)]"

definition x_scaledic :: pdict where
  "x_scaledic = [(StrKey ''v'', 1 / 10 ^ 7), (StrKey ''p'', 1 / 10 ^ 6), (StrKey ''w'', 1 / 10 ^ 3)]"

text \<open>The role letters of a method string of the Legendre family, line 310.\<close>

definition paramstring_of :: "string \<Rightarrow> string list" where
  "paramstring_of method = map (\<lambda>s. [s]) (filter (\<lambda>s. \<not> isdigit s) (tl method))"

text \<open>
  Lines 303 to 343, the family \<^verbatim>\<open>'l'\<close>. The result is the wavelength solution, \<open>popt\<close>
  and \<open>pcov\<close> (computed under \<open>cov\<close> only), or what was raised; the dictionary of the
  caller, which is \<open>PVWdic\<close> itself when the caller gave one; and what line 330 printed:
  the role letters and the status of the optimizer.
\<close>

definition fit_legendre ::
  "'tck env \<Rightarrow> string \<Rightarrow> vec \<Rightarrow> vec \<Rightarrow> vec \<Rightarrow> vec option \<Rightarrow> vec option \<Rightarrow> bool \<Rightarrow> real
     \<Rightarrow> pdict option
     \<Rightarrow> (vec \<times> vec \<times> matrix option) outcome \<times> pdict option \<times> (string list \<times> int) list" where
  "fit_legendre env method RefWavl RefFlux SpectrumY initial_guess sigma cov Reg defaultParamDic =
     (let PVWdic = (case defaultParamDic of
                      None \<Rightarrow> [(StrKey ''v'', 0), (StrKey ''p'', 0), (StrKey ''w'', 0)]
                    | Some d \<Rightarrow> d);
          caller = (\<lambda>PVWdic. case defaultParamDic of None \<Rightarrow> None | Some _ \<Rightarrow> Some PVWdic);
          paramstring = paramstring_of method;
          digits = filter isdigit (tl method)
      in if digits = [] then (Raise ValueError, defaultParamDic, [])
         else
           let ldeg = int_of_digits digits;
               grid = linspace env (- 1) 1 (length RefWavl)
           in case obind (legfit env grid RefWavl (int ldeg)) (\<lambda>LCRef.
                     obind (case initial_guess of
                              Some g \<Rightarrow> Ok g
                            | None \<Rightarrow> obind (omap (\<lambda>s. getitem Initp (StrKey s)) paramstring)
                                        (\<lambda>ps. Ok (1 # ps))) (\<lambda>p0.
                       obind (omap (\<lambda>s. getitem x_scaledic (StrKey s)) paramstring) (\<lambda>xs.
                         Ok (LCRef, p0, 1 # xs)))) of
                Raise e \<Rightarrow> (Raise e, defaultParamDic, [])
              | NonFinite \<Rightarrow> (NonFinite, defaultParamDic, [])
              | Ok (LCRef, p0, x_scale) \<Rightarrow>
                  (case run_optimizer (least_squares env p0 x_scale)
                          (l_errorfunc_tominimise env Reg paramstring RefWavl RefFlux SpectrumY
                             sigma LCRef) PVWdic of
                     (Raise e, PVWdic) \<Rightarrow> (Raise e, caller PVWdic, [])
                   | (NonFinite, PVWdic) \<Rightarrow> (NonFinite, caller PVWdic, [])
                   | (Ok fitoutput, PVWdic) \<Rightarrow>
                       let popt = fit_x fitoutput;
                           printed = [(paramstring, fit_status fitoutput)]
                       in case (if cov
                                then obind (calculate_cov_matrix_fromscipylsq env fitoutput)
                                       (\<lambda>c. Ok (Some c))
                                else Ok None) of
                            Raise e \<Rightarrow> (Raise e, caller PVWdic, printed)
                          | NonFinite \<Rightarrow> (NonFinite, caller PVWdic, printed)
                          | Ok pcov \<Rightarrow>
                              (case store_roles paramstring popt 0 PVWdic of
                                 (stored, PVWdic) \<Rightarrow>
                                   (obind stored (\<lambda>_.
                                      obind (TransformLegendreCoeffs LCRef PVWdic
                                               (normP_of paramstring)) (\<lambda>LCnew.
                                        obind (legval env grid LCnew) (\<lambda>wavl_sln.
                                          Ok (wavl_sln, popt, pcov)))),
                                    caller PVWdic, printed))))"

text \<open>What the driver returns: \<^verbatim>\<open>wavl_sln, popt\<close>, and \<open>pcov\<close> under \<open>cov\<close>.\<close>

record ret =
  ret_wavl_sln :: vec
  ret_popt :: vec
  ret_pcov :: "matrix option"

text \<open>
  Lines 348 to 359 after a single-family fit: the inverse scaling for the families
  \<^verbatim>\<open>'p'\<close> and \<^verbatim>\<open>'c'\<close> (\<open>unscale\<close>) under \<open>scalepixel\<close>, and the returned tuple.
\<close>

definition finish_fit ::
  "bool \<Rightarrow> vec \<Rightarrow> bool \<Rightarrow> (vec \<times> vec \<times> matrix) outcome \<Rightarrow> ret outcome" where
  "finish_fit unscale RefWavl cov fitted =
     obind fitted (\<lambda>(wavl, popt, pcov).
       obind (if unscale then
                obind (py_min RefWavl) (\<lambda>a. obind (py_max RefWavl) (\<lambda>b.
                  omap (\<lambda>x. scale_interval_m1top1 x a b True) wavl))
              else Ok wavl) (\<lambda>wavl_sln.
         Ok \<lparr>ret_wavl_sln = wavl_sln, ret_popt = popt,
             ret_pcov = (if cov then Some pcov else None)\<rparr>))"

text \<open>
  \<^verbatim>\<open>ReCalibrateDispersionSolution(SpectrumY,RefSpectrum,method='p3',initial_guess=None,
  sigma=None,cov=False,Reg=0,defaultParamDic=None,scalepixel=True)\<close>, lines 185 to 359.
  \<open>RefSpectrum\<close> is the array of the pairs of a wavelength and a flux. The result is
  what the call returns or raises, the dictionary \<open>defaultParamDic\<close> of the caller after
  the call, and the status lines printed. The lines that the helpers print right before
  they raise are not in the model.

  \<^verbatim>\<open>method[0]\<close> raises \<^verbatim>\<open>IndexError\<close> for the empty string. The wavelengths are scaled
  for a first letter \<^verbatim>\<open>'p'\<close> or \<^verbatim>\<open>'c'\<close> before the branches are tried; an exception there
  ends the call, and scaled wavelengths that are not finite matter only where a fit
  reads them.
\<close>

definition ReCalibrateDispersionSolution ::
  "'tck env \<Rightarrow> vec \<Rightarrow> (real \<times> real) list \<Rightarrow> string \<Rightarrow> vec option \<Rightarrow> vec option \<Rightarrow> bool \<Rightarrow> real
     \<Rightarrow> pdict option \<Rightarrow> bool \<Rightarrow> ret outcome \<times> pdict option \<times> (string list \<times> int) list" where
  "ReCalibrateDispersionSolution env SpectrumY RefSpectrum method initial_guess sigma cov Reg
       defaultParamDic scalepixel =
     (let RefFlux = map snd RefSpectrum;
          RefWavl = map fst RefSpectrum
      in if method = [] then (Raise IndexError, defaultParamDic, [])
         else
           let family = [hd method];
               scaledWavl = (if family \<in> set [''p'', ''c'']
                             then scaled_wavelengths RefWavl scalepixel else Ok [])
           in case scaledWavl of
                Raise e \<Rightarrow> (Raise e, defaultParamDic, [])
              | _ \<Rightarrow>
                  if family = ''p'' \<and> str_isdigit (tl method) then
                    (finish_fit scalepixel RefWavl cov
                       (obind scaledWavl (\<lambda>scaledWavl.
                          fit_polynomial env ''p'' scaledWavl RefFlux SpectrumY
                            (int_of_digits (tl method)) initial_guess sigma defaultParamDic)),
                     defaultParamDic, [])
                  else if family = ''c'' \<and> str_isdigit (tl method) then
                    (finish_fit scalepixel RefWavl cov
                       (obind scaledWavl (\<lambda>scaledWavl.
                          fit_polynomial env ''c'' scaledWavl RefFlux SpectrumY
                            (int_of_digits (tl method)) initial_guess sigma defaultParamDic)),
                     defaultParamDic, [])
                  else if family = ''v'' then
                    (finish_fit False RefWavl cov
                       (fit_velocity env RefWavl RefFlux SpectrumY initial_guess sigma
                          defaultParamDic),
                     defaultParamDic, [])
                  else if family = ''x'' then
                    (finish_fit False RefWavl cov
                       (fit_velocity_pixel env RefWavl RefFlux SpectrumY initial_guess sigma
                          defaultParamDic),
                     defaultParamDic, [])
                  else if family = ''l'' then
                    (case fit_legendre env method RefWavl RefFlux SpectrumY initial_guess sigma
                            cov Reg defaultParamDic of
                       (fitted, caller, printed) \<Rightarrow>
                         (obind fitted (\<lambda>(wavl_sln, popt, pcov).
                            Ok \<lparr>ret_wavl_sln = wavl_sln, ret_popt = popt, ret_pcov = pcov\<rparr>),
                          caller, printed))
                  else (Raise NotImplementedError, defaultParamDic, []))"

section \<open>A small environment\<close>

text \<open>
  An environment on which the model runs on concrete inputs: simple total functions in
  the place of the numpy and scipy ones, and optimizers that call their function once,
  at the initial guess, and return the initial guess, \<^verbatim>\<open>least_squares\<close> with the given
  status. The theorems hold for every environment; this one discharges their hypotheses
  on an example.
\<close>

definition toy_env :: "int \<Rightarrow> int option \<Rightarrow> vec env" where
  "toy_env status ldeg =
     \<lparr>linspace = (\<lambda>a b n. map (\<lambda>i. a + (b - a) * real i / real (n - 1)) [0..<n]),
      legfit = (\<lambda>grid y deg. Ok (sum_list y / real (length y) # replicate (nat deg) 0)),
      legval = (\<lambda>grid c. Ok (map (\<lambda>t. sum_list (map2 (\<lambda>a k. a * t ^ k) c [0..<length c])) grid)),
      polyval = (\<lambda>X c. Ok (map (\<lambda>t. sum_list (map2 (\<lambda>a k. a * t ^ k) c [0..<length c])) X)),
      chebval = (\<lambda>X c. Ok (map (\<lambda>t. sum_list (map2 (\<lambda>a k. a * t ^ k) c [0..<length c])) X)),
      gradient = (\<lambda>X. Ok (map (\<lambda>x. 1) X)),
      splrep = (\<lambda>X y. case X of None \<Rightarrow> Raise TypeError | Some X \<Rightarrow> Ok y),
      splev = (\<lambda>Xt tck ext. Ok (take (length Xt) tck)),
      curve_fit = (\<lambda>xdata ydata p0 sigma. Call p0 (\<lambda>y. Return (p0, []))),
      least_squares = (\<lambda>p0 x_scale. Call p0 (\<lambda>r. Return \<lparr>fit_x = p0, fit_status = status, fit_jac = []\<rparr>)),
      calculate_cov_matrix_fromscipylsq = (\<lambda>fo. Ok (fit_jac fo)),
      global_ldeg = ldeg\<rparr>"


section \<open>Properties of the coordinate scaler\<close>

lemma obind_Ok [simp]: "obind (Ok a) f = f a"
  by (simp add: obind_def)

lemma obind_Raise [simp]: "obind (Raise e) f = Raise e"
  by (simp add: obind_def)

lemma obind_NonFinite [simp]: "obind NonFinite f = NonFinite"
  by (simp add: obind_def)

lemma obind_eq_Ok: "obind m f = Ok y \<longleftrightarrow> (\<exists>a. m = Ok a \<and> f a = Ok y)"
  by (cases m) simp_all

lemma scale_roundtrip_scalar:
  assumes "a \<noteq> b"
  shows "obind (scale_interval_m1top1 x a b False) (\<lambda>y. scale_interval_m1top1 y a b True) = Ok x"
proof -
  have nz: "b - a \<noteq> 0" using assms by simp
  have "((b - a) * ((2 * x - (b + a)) / (b - a)) + a + b) / 2 = x"
    using nz by (simp add: field_simps)
  then show ?thesis
    using nz by (simp add: scale_interval_m1top1_def)
qed

lemma scale_roundtrip_array:
  assumes "a \<noteq> b"
  shows "obind (omap (\<lambda>x. scale_interval_m1top1 x a b False) xs)
           (omap (\<lambda>y. scale_interval_m1top1 y a b True)) = Ok xs"
proof (induction xs)
  case Nil
  show ?case by simp
next
  case (Cons x xs)
  from scale_roundtrip_scalar [OF assms, of x]
  obtain y where y: "scale_interval_m1top1 x a b False = Ok y"
    and inv: "scale_interval_m1top1 y a b True = Ok x"
    by (cases "scale_interval_m1top1 x a b False") simp_all
  from Cons.IH obtain ys where ys: "omap (\<lambda>x. scale_interval_m1top1 x a b False) xs = Ok ys"
    and invs: "omap (\<lambda>y. scale_interval_m1top1 y a b True) ys = Ok xs"
    by (cases "omap (\<lambda>x. scale_interval_m1top1 x a b False) xs") simp_all
  show ?case by (simp add: y ys inv invs)
qed

text \<open>
  Claim C7. For every \<open>x\<close> and every \<open>a \<noteq> b\<close>, scaling to the interval from -1 to 1 and
  then scaling back with \<^verbatim>\<open>inverse_scale=True\<close> returns \<open>x\<close>, exactly over the reals,
  for a scalar and elementwise for an array.
\<close>

theorem scale_interval_roundtrip:
  assumes "a \<noteq> b"
  shows "obind (scale_interval_m1top1 x a b False) (\<lambda>y. scale_interval_m1top1 y a b True) = Ok x
       \<and> obind (omap (\<lambda>x. scale_interval_m1top1 x a b False) xs)
           (omap (\<lambda>y. scale_interval_m1top1 y a b True)) = Ok xs"
  using scale_roundtrip_scalar [OF assms] scale_roundtrip_array [OF assms] by simp

theorem scale_interval_roundtrip_witness:
  "(4000::real) \<noteq> 7000
   \<and> obind (scale_interval_m1top1 4500 4000 7000 False)
        (\<lambda>y. scale_interval_m1top1 y 4000 7000 True) = Ok 4500
   \<and> obind (omap (\<lambda>x. scale_interval_m1top1 x 4000 7000 False) [4000, 5500, 7000])
        (omap (\<lambda>y. scale_interval_m1top1 y 4000 7000 True)) = Ok [4000, 5500, 7000]"
proof -
  have h: "(4000::real) \<noteq> 7000" by simp
  show ?thesis
    using h scale_interval_roundtrip [OF h, of 4500 "[4000, 5500, 7000]"] by simp
qed

section \<open>Properties of the Legendre coefficient transform\<close>



































section \<open>Properties of the error function of the Legendre family\<close>

lemma omap_Ok: "(\<And>x. x \<in> set xs \<Longrightarrow> f x = Ok (g x)) \<Longrightarrow> omap f xs = Ok (map g xs)"
  by (induction xs) simp_all

lemma residual_vector_eq:
  assumes "length Data = length P"
    and "case sigma of None \<Rightarrow> True | Some sg \<Rightarrow> length sg = length P \<and> 0 \<notin> set sg"
    and "0 \<le> Reg"
  shows "residual_vector Reg params (Some Data) sigma P
       = Ok (map2 (/) (map2 (-) P Data) (case sigma of None \<Rightarrow> replicate (length P) 1 | Some sg \<Rightarrow> sg)
             @ map (\<lambda>x. sqrt (Reg * \<bar>x\<bar>)) (tl params))"
proof -
  have diff: "broadcast2 (\<lambda>x y. Ok (x - y)) P Data = Ok (map2 (-) P Data)"
    using assms(1) by (simp add: broadcast2_def omap_Ok [where g = "\<lambda>(x, y). x - y"] split_beta)
  have pen: "omap (\<lambda>x. fsqrt (Reg * \<bar>x\<bar>)) (tl params) = Ok (map (\<lambda>x. sqrt (Reg * \<bar>x\<bar>)) (tl params))"
    using assms(3) by (intro omap_Ok) (simp add: fsqrt_def not_less)
  have quot: "(case sigma of None \<Rightarrow> omap (\<lambda>x. fdiv x 1) (map2 (-) P Data)
               | Some sg \<Rightarrow> broadcast2 fdiv (map2 (-) P Data) sg)
            = Ok (map2 (/) (map2 (-) P Data)
                    (case sigma of None \<Rightarrow> replicate (length P) 1 | Some sg \<Rightarrow> sg))"
  proof (cases sigma)
    case None
    have "map2 (/) (map2 (-) P Data) (replicate (length P) 1) = map2 (-) P Data"
      using assms(1) by (intro nth_equalityI) simp_all
    then show ?thesis using None by (simp add: omap_Ok [where g = "\<lambda>x. x"] fdiv_def)
  next
    case (Some sg)
    then have len: "length sg = length P" and nz: "0 \<notin> set sg" using assms(2) by simp_all
    have "omap (\<lambda>(x, y). fdiv x y) (zip (map2 (-) P Data) sg)
        = Ok (map (\<lambda>(x, y). x / y) (zip (map2 (-) P Data) sg))"
      using nz by (intro omap_Ok) (auto simp: fdiv_def dest: set_zip_rightD)
    then show ?thesis using Some len assms(1) by (simp add: broadcast2_def)
  qed
  show ?thesis
    by (simp add: residual_vector_def diff quot pen)
qed

lemma omap_Ok_map:
  assumes "omap f xs = Ok ys" and "\<And>x y. f x = Ok y \<Longrightarrow> y = g x"
  shows "ys = map g xs"
  using assms(1)
proof (induction xs arbitrary: ys)
  case Nil
  then show ?case by simp
next
  case (Cons x xs)
  from Cons.prems obtain y ys' where y: "f x = Ok y" and ys': "omap f xs = Ok ys'"
    and ys: "ys = y # ys'"
    by (auto simp: obind_eq_Ok)
  from Cons.IH [OF ys'] assms(2) [OF y] ys show ?case by simp
qed

lemma residual_vector_Ok:
  assumes "residual_vector Reg params DataToFit sigma P = Ok r"
  shows "\<exists>Data diff res.
           DataToFit = Some Data
         \<and> broadcast2 (\<lambda>x y. Ok (x - y)) P Data = Ok diff
         \<and> (case sigma of None \<Rightarrow> res = diff | Some sg \<Rightarrow> broadcast2 fdiv diff sg = Ok res)
         \<and> r = res @ map (\<lambda>x. sqrt (Reg * \<bar>x\<bar>)) (tl params)"
proof -
  from assms obtain Data where D: "DataToFit = Some Data"
    by (cases DataToFit) (simp_all add: residual_vector_def)
  let ?q = "obind (broadcast2 (\<lambda>x y. Ok (x - y)) P Data) (\<lambda>diff.
                  case sigma of
                    None \<Rightarrow> omap (\<lambda>x. fdiv x 1) diff
                  | Some sg \<Rightarrow> broadcast2 fdiv diff sg)"
  from assms D obtain res pen where q: "?q = Ok res"
    and pen: "omap (\<lambda>x. fsqrt (Reg * \<bar>x\<bar>)) (tl params) = Ok pen" and r: "r = res @ pen"
    by (cases ?q) (auto simp: residual_vector_def obind_eq_Ok)
  from q obtain diff where diff: "broadcast2 (\<lambda>x y. Ok (x - y)) P Data = Ok diff"
    and sg: "(case sigma of None \<Rightarrow> omap (\<lambda>x. fdiv x 1) diff
              | Some sg \<Rightarrow> broadcast2 fdiv diff sg) = Ok res"
    by (auto simp: obind_eq_Ok)
  have "pen = map (\<lambda>x. sqrt (Reg * \<bar>x\<bar>)) (tl params)"
    using pen by (rule omap_Ok_map) (simp add: fsqrt_def split: if_splits)
  moreover have "case sigma of None \<Rightarrow> res = diff | Some sg \<Rightarrow> broadcast2 fdiv diff sg = Ok res"
  proof (cases sigma)
    case None
    with sg have "omap (\<lambda>x. fdiv x 1) diff = Ok res" by simp
    then have "res = map (\<lambda>x. x) diff"
      by (rule omap_Ok_map) (simp add: fdiv_def)
    with None show ?thesis by simp
  next
    case (Some a)
    with sg show ?thesis by simp
  qed
  ultimately show ?thesis using D diff r by blast
qed

lemma errorfunc_tominimise_Ok:
  assumes "errorfunc_tominimise env params ''l'' Reg RefSpectrum DataToFit sigma defaultParamDic kw
             = (Ok (Some r), caller)"
  shows "\<exists>RS P Data diff res.
           RefSpectrum = Some RS
         \<and> legendre_predicted env params RS (map (\<lambda>x. x * params ! 0) RS) defaultParamDic kw
             = (Ok P, caller)
         \<and> DataToFit = Some Data
         \<and> broadcast2 (\<lambda>x y. Ok (x - y)) P Data = Ok diff
         \<and> (case sigma of None \<Rightarrow> res = diff | Some sg \<Rightarrow> broadcast2 fdiv diff sg = Ok res)
         \<and> r = res @ map (\<lambda>x. sqrt (Reg * \<bar>x\<bar>)) (tl params)"
proof -
  from assms have ne: "params \<noteq> []"
    by (auto simp: errorfunc_tominimise_def split: if_splits)
  with assms obtain RS where RS: "RefSpectrum = Some RS"
    by (cases RefSpectrum) (simp_all add: errorfunc_tominimise_def)
  obtain Pr c where lp: "legendre_predicted env params RS (map (\<lambda>x. x * params ! 0) RS)
      defaultParamDic kw = (Pr, c)"
    by (cases "legendre_predicted env params RS (map (\<lambda>x. x * params ! 0) RS)
      defaultParamDic kw")
  from assms ne RS lp obtain P where P: "Pr = Ok P" and c: "c = caller"
    and rv: "residual_vector Reg params DataToFit sigma P = Ok r"
    by (auto simp: errorfunc_tominimise_def Let_def obind_eq_Ok)
  from residual_vector_Ok [OF rv] RS lp P c show ?thesis by blast
qed

text \<open>
  Claim C4. For the method \<^verbatim>\<open>'l'\<close>, once the predicted spectrum is computed, the error
  function returns the residuals (predicted minus observed, divided by \<open>sigma\<close>, which
  is 1 when not given) followed by \<open>sqrt (Reg * \<bar>x\<bar>)\<close> for every \<open>x\<close> of \<^verbatim>\<open>params[1:]\<close>:
  the penalty block covers every parameter but \<^verbatim>\<open>params[0]\<close>, and is zero for
  \<open>Reg = 0\<close>. The hypotheses keep the arithmetic in the reals: arrays of one length, no
  zero in \<open>sigma\<close>, \<open>Reg\<close> not negative. And whatever the arguments (the primed
  variables), an array that the function returns is the residuals, under numpy's
  broadcasting, followed by that penalty block.
\<close>

theorem errorfunc_residual_concatenation:
  assumes "params \<noteq> []"
    and "legendre_predicted env params RefSpectrum (map (\<lambda>x. x * params ! 0) RefSpectrum)
           defaultParamDic kw = (Ok PredictedSpectrum, caller)"
    and "length DataToFit = length PredictedSpectrum"
    and "case sigma of None \<Rightarrow> True
         | Some sg \<Rightarrow> length sg = length PredictedSpectrum \<and> 0 \<notin> set sg"
    and "0 \<le> Reg"
  shows "errorfunc_tominimise env params ''l'' Reg (Some RefSpectrum) (Some DataToFit) sigma
           defaultParamDic kw
         = (Ok (Some (map2 (/) (map2 (-) PredictedSpectrum DataToFit)
                        (case sigma of None \<Rightarrow> replicate (length PredictedSpectrum) 1
                         | Some sg \<Rightarrow> sg)
                      @ map (\<lambda>x. sqrt (Reg * \<bar>x\<bar>)) (tl params))), caller)
       \<and> (Reg = 0 \<longrightarrow> map (\<lambda>x. sqrt (Reg * \<bar>x\<bar>)) (tl params) = replicate (length params - 1) 0)
       \<and> (errorfunc_tominimise env params' ''l'' Reg' RefSpectrum' DataToFit' sigma'
             defaultParamDic' kw' = (Ok (Some r'), caller') \<longrightarrow>
          (\<exists>RS P Data diff res.
              RefSpectrum' = Some RS
            \<and> legendre_predicted env params' RS (map (\<lambda>x. x * params' ! 0) RS) defaultParamDic' kw'
                = (Ok P, caller')
            \<and> DataToFit' = Some Data
            \<and> broadcast2 (\<lambda>x y. Ok (x - y)) P Data = Ok diff
            \<and> (case sigma' of None \<Rightarrow> res = diff | Some sg \<Rightarrow> broadcast2 fdiv diff sg = Ok res)
            \<and> r' = res @ map (\<lambda>x. sqrt (Reg' * \<bar>x\<bar>)) (tl params')))"
proof (intro conjI impI)
  show "errorfunc_tominimise env params ''l'' Reg (Some RefSpectrum) (Some DataToFit) sigma
           defaultParamDic kw
         = (Ok (Some (map2 (/) (map2 (-) PredictedSpectrum DataToFit)
                        (case sigma of None \<Rightarrow> replicate (length PredictedSpectrum) 1
                         | Some sg \<Rightarrow> sg)
                      @ map (\<lambda>x. sqrt (Reg * \<bar>x\<bar>)) (tl params))), caller)"
    using assms(1,2) residual_vector_eq [OF assms(3,4,5), of params]
    by (simp add: errorfunc_tominimise_def)
  show "map (\<lambda>x. sqrt (Reg * \<bar>x\<bar>)) (tl params) = replicate (length params - 1) 0" if "Reg = 0"
    using that by (simp add: map_replicate_const)
  show "\<exists>RS P Data diff res.
              RefSpectrum' = Some RS
            \<and> legendre_predicted env params' RS (map (\<lambda>x. x * params' ! 0) RS) defaultParamDic' kw'
                = (Ok P, caller')
            \<and> DataToFit' = Some Data
            \<and> broadcast2 (\<lambda>x y. Ok (x - y)) P Data = Ok diff
            \<and> (case sigma' of None \<Rightarrow> res = diff | Some sg \<Rightarrow> broadcast2 fdiv diff sg = Ok res)
            \<and> r' = res @ map (\<lambda>x. sqrt (Reg' * \<bar>x\<bar>)) (tl params')"
    if "errorfunc_tominimise env params' ''l'' Reg' RefSpectrum' DataToFit' sigma'
             defaultParamDic' kw' = (Ok (Some r'), caller')"
    using that by (rule errorfunc_tominimise_Ok)
qed

lemma legendre_predicted_ldeg:
  assumes "kw_LCRef kw = None" and "kw_ldeg kw = Some d" and "kw_WavlCoords kw = Some X"
  shows "legendre_predicted env params RefSpectrum scaledFlux defaultParamDic (kw\<lparr>kw_ldeg := Some d'\<rparr>)
       = legendre_predicted env params RefSpectrum scaledFlux defaultParamDic kw"
  using assms by (simp add: legendre_predicted_def cong: outcome.case_cong)

lemma legendre_predicted_NameError:
  assumes "kw_LCRef kw = None" and "kw_ldeg kw = Some d" and "kw_WavlCoords kw = Some X"
    and "global_ldeg env = None"
  shows "legendre_predicted env params RefSpectrum scaledFlux defaultParamDic kw
       = (Raise NameError, defaultParamDic)"
  using assms by (simp add: legendre_predicted_def)

lemma legendre_predicted_global:
  assumes "kw_LCRef kw = None" and "kw_ldeg kw = Some d" and "kw_WavlCoords kw = Some X"
    and "global_ldeg env = Some g"
    and "legfit env (linspace env (- 1) 1 (length RefSpectrum)) X g = Ok LC"
  shows "legendre_predicted env params RefSpectrum scaledFlux defaultParamDic kw
       = legendre_predicted env params RefSpectrum scaledFlux defaultParamDic (kw\<lparr>kw_LCRef := Some LC\<rparr>)"
  using assms by (simp add: legendre_predicted_def)

text \<open>
  Claim C9. When \<^verbatim>\<open>LCRef\<close> is not among the keyword arguments and \<^verbatim>\<open>ldeg\<close> and
  \<^verbatim>\<open>WavlCoords\<close> are, the degree of the fit of the reference coefficients is the global
  name \<^verbatim>\<open>ldeg\<close>: the call fails with \<^verbatim>\<open>NameError\<close> when the name is unbound, the value
  of the keyword argument \<^verbatim>\<open>ldeg\<close> never changes the result, and with the global bound
  to \<open>g\<close> the result is the one for the coefficients fitted with degree \<open>g\<close>.
\<close>

theorem errorfunc_ldeg_not_from_kwargs:
  assumes "params \<noteq> []"
    and "kw_LCRef kw = None" and "kw_ldeg kw = Some d" and "kw_WavlCoords kw = Some X"
  shows "(global_ldeg env = None \<longrightarrow>
            errorfunc_tominimise env params ''l'' Reg (Some RefSpectrum) DataToFit sigma
              defaultParamDic kw = (Raise NameError, defaultParamDic))
       \<and> errorfunc_tominimise env params ''l'' Reg (Some RefSpectrum) DataToFit sigma
           defaultParamDic (kw\<lparr>kw_ldeg := Some d'\<rparr>)
         = errorfunc_tominimise env params ''l'' Reg (Some RefSpectrum) DataToFit sigma
             defaultParamDic kw
       \<and> (\<forall>g LC. global_ldeg env = Some g
             \<and> legfit env (linspace env (- 1) 1 (length RefSpectrum)) X g = Ok LC \<longrightarrow>
            errorfunc_tominimise env params ''l'' Reg (Some RefSpectrum) DataToFit sigma
              defaultParamDic kw
            = errorfunc_tominimise env params ''l'' Reg (Some RefSpectrum) DataToFit sigma
                defaultParamDic (kw\<lparr>kw_LCRef := Some LC\<rparr>))"
proof (intro conjI allI impI)
  assume "global_ldeg env = None"
  with assms(2-4)
  have "legendre_predicted env params RefSpectrum (map (\<lambda>x. x * params ! 0) RefSpectrum)
          defaultParamDic kw = (Raise NameError, defaultParamDic)"
    by (rule legendre_predicted_NameError)
  then show "errorfunc_tominimise env params ''l'' Reg (Some RefSpectrum) DataToFit sigma
              defaultParamDic kw = (Raise NameError, defaultParamDic)"
    using assms(1) by (simp add: errorfunc_tominimise_def Let_def)
next
  show "errorfunc_tominimise env params ''l'' Reg (Some RefSpectrum) DataToFit sigma
           defaultParamDic (kw\<lparr>kw_ldeg := Some d'\<rparr>)
         = errorfunc_tominimise env params ''l'' Reg (Some RefSpectrum) DataToFit sigma
             defaultParamDic kw"
    using assms(1)
    by (simp add: errorfunc_tominimise_def Let_def legendre_predicted_ldeg [OF assms(2-4)])
next
  fix g LC
  assume "global_ldeg env = Some g
             \<and> legfit env (linspace env (- 1) 1 (length RefSpectrum)) X g = Ok LC"
  then have "legendre_predicted env params RefSpectrum (map (\<lambda>x. x * params ! 0) RefSpectrum)
          defaultParamDic kw
     = legendre_predicted env params RefSpectrum (map (\<lambda>x. x * params ! 0) RefSpectrum)
          defaultParamDic (kw\<lparr>kw_LCRef := Some LC\<rparr>)"
    using assms(2-4) by (intro legendre_predicted_global [where d = d and X = X and g = g]) auto
  then show "errorfunc_tominimise env params ''l'' Reg (Some RefSpectrum) DataToFit sigma
              defaultParamDic kw
            = errorfunc_tominimise env params ''l'' Reg (Some RefSpectrum) DataToFit sigma
                defaultParamDic (kw\<lparr>kw_LCRef := Some LC\<rparr>)"
    using assms(1) by (simp add: errorfunc_tominimise_def Let_def)
qed

text \<open>With the global unbound the call raises; bound to 0, degree 7 and degree 3 agree.\<close>

theorem errorfunc_ldeg_not_from_kwargs_witness:
  "errorfunc_tominimise (toy_env 1 None) [1, 0] ''l'' 0 (Some [10, 20, 30]) (Some [10, 20, 30]) None
     None \<lparr>kw_WavlCoords = Some [4000, 5000, 6000], kw_LCRef = None, kw_ldeg = Some 3,
           kw_paramstofit = Some [''w'']\<rparr> = (Raise NameError, None)
   \<and> errorfunc_tominimise (toy_env 1 (Some 0)) [1, 0] ''l'' 0 (Some [10, 20, 30]) (Some [10, 20, 30]) None
     None \<lparr>kw_WavlCoords = Some [4000, 5000, 6000], kw_LCRef = None, kw_ldeg = Some 7,
           kw_paramstofit = Some [''w'']\<rparr>
     = errorfunc_tominimise (toy_env 1 (Some 0)) [1, 0] ''l'' 0 (Some [10, 20, 30]) (Some [10, 20, 30]) None
     None \<lparr>kw_WavlCoords = Some [4000, 5000, 6000], kw_LCRef = None, kw_ldeg = Some 3,
           kw_paramstofit = Some [''w'']\<rparr>"
  using errorfunc_ldeg_not_from_kwargs [of "[1, 0]"
      "\<lparr>kw_WavlCoords = Some [4000, 5000, 6000], kw_LCRef = None, kw_ldeg = Some 3,
           kw_paramstofit = Some [''w'']\<rparr>" 3 "[4000, 5000, 6000]" "toy_env 1 None" 0
      "[10, 20, 30]" "Some [10, 20, 30]" None None 7]
    errorfunc_ldeg_not_from_kwargs [of "[1, 0]"
      "\<lparr>kw_WavlCoords = Some [4000, 5000, 6000], kw_LCRef = None, kw_ldeg = Some 3,
           kw_paramstofit = Some [''w'']\<rparr>" 3 "[4000, 5000, 6000]" "toy_env 1 (Some 0)" 0
      "[10, 20, 30]" "Some [10, 20, 30]" None None 7]
  by (simp add: toy_env_def)

lemma toy_predicted:
  "legendre_predicted (toy_env 1 None) [1, 4] [10, 20, 30] (map (\<lambda>x. x * [1, 4] ! 0) [10, 20, 30]) None
     \<lparr>kw_WavlCoords = Some [4000, 5000, 6000], kw_LCRef = Some [5000], kw_ldeg = None,
      kw_paramstofit = Some [''w'']\<rparr> = (Ok [10, 20, 30], None)"
  by (simp add: legendre_predicted_def toy_env_def setitem_def normP_of_def
      TransformLegendreCoeffs_def wavl_shifted_def pixel_shifted_def getitem_def
      matmul_def LCTransformMatrixP_def identity_def range_step2_def set_entry_def)

text \<open>Three pixels, one fitted role \<open>w = 4\<close>, \<open>Reg = 1\<close>: three residuals and one penalty.\<close>

theorem errorfunc_residual_concatenation_witness:
  "errorfunc_tominimise (toy_env 1 None) [1, 4] ''l'' 1 (Some [10, 20, 30]) (Some [10, 18, 33])
     (Some [1, 2, 3]) None
     \<lparr>kw_WavlCoords = Some [4000, 5000, 6000], kw_LCRef = Some [5000], kw_ldeg = None,
      kw_paramstofit = Some [''w'']\<rparr> = (Ok (Some [0, 1, - 1, 2]), None)"
  using errorfunc_residual_concatenation [of "[1, 4]" "toy_env 1 None" "[10, 20, 30]" None
      "\<lparr>kw_WavlCoords = Some [4000, 5000, 6000], kw_LCRef = Some [5000], kw_ldeg = None,
      kw_paramstofit = Some [''w'']\<rparr>" "[10, 20, 30]" None "[10, 18, 33]" "Some [1, 2, 3]" 1]
    toy_predicted
  by simp

section \<open>Properties of the driver\<close>

text \<open>
  Claim C10. The families \<^verbatim>\<open>'v'\<close> and \<^verbatim>\<open>'x'\<close> are chosen by the first character of the
  method string alone: whatever characters follow it, the call does what the call with
  the plain method does, which is the velocity fit, or the velocity and pixel fit, and
  never the rejection of the string.
\<close>

theorem trailing_characters_ignored:
  "ReCalibrateDispersionSolution env SpectrumY RefSpectrum (CHR ''v'' # rest) initial_guess sigma
     cov Reg defaultParamDic scalepixel
   = ReCalibrateDispersionSolution env SpectrumY RefSpectrum ''v'' initial_guess sigma
       cov Reg defaultParamDic scalepixel
   \<and> ReCalibrateDispersionSolution env SpectrumY RefSpectrum (CHR ''x'' # rest) initial_guess sigma
     cov Reg defaultParamDic scalepixel
   = ReCalibrateDispersionSolution env SpectrumY RefSpectrum ''x'' initial_guess sigma
       cov Reg defaultParamDic scalepixel
   \<and> ReCalibrateDispersionSolution env SpectrumY RefSpectrum (CHR ''v'' # rest) initial_guess sigma
     cov Reg defaultParamDic scalepixel
   = (finish_fit False (map fst RefSpectrum) cov
        (fit_velocity env (map fst RefSpectrum) (map snd RefSpectrum) SpectrumY initial_guess
           sigma defaultParamDic), defaultParamDic, [])
   \<and> ReCalibrateDispersionSolution env SpectrumY RefSpectrum (CHR ''x'' # rest) initial_guess sigma
     cov Reg defaultParamDic scalepixel
   = (finish_fit False (map fst RefSpectrum) cov
        (fit_velocity_pixel env (map fst RefSpectrum) (map snd RefSpectrum) SpectrumY initial_guess
           sigma defaultParamDic), defaultParamDic, [])"
  by (simp add: ReCalibrateDispersionSolution_def Let_def)









lemma fit_legendre_Ok:
  assumes "fit_legendre env method RefWavl RefFlux SpectrumY initial_guess sigma cov Reg
             defaultParamDic = (Ok (wavl_sln, popt, pcov), caller, printed)"
  shows "\<exists>LCRef p0 x_scale fitoutput PVWdic1 PVWdic2 LCnew.
           legfit env (linspace env (- 1) 1 (length RefWavl)) RefWavl
             (int (int_of_digits (filter isdigit (tl method)))) = Ok LCRef
         \<and> run_optimizer (least_squares env p0 x_scale)
             (l_errorfunc_tominimise env Reg (paramstring_of method) RefWavl RefFlux SpectrumY
                sigma LCRef)
             (case defaultParamDic of
                None \<Rightarrow> [(StrKey ''v'', 0), (StrKey ''p'', 0), (StrKey ''w'', 0)]
              | Some d \<Rightarrow> d) = (Ok fitoutput, PVWdic1)
         \<and> popt = fit_x fitoutput
         \<and> printed = [(paramstring_of method, fit_status fitoutput)]
         \<and> store_roles (paramstring_of method) popt 0 PVWdic1 = (Ok (), PVWdic2)
         \<and> caller = (case defaultParamDic of None \<Rightarrow> None | Some _ \<Rightarrow> Some PVWdic2)
         \<and> TransformLegendreCoeffs LCRef PVWdic2 (normP_of (paramstring_of method)) = Ok LCnew
         \<and> legval env (linspace env (- 1) 1 (length RefWavl)) LCnew = Ok wavl_sln"
  using assms unfolding fit_legendre_def Let_def
  by (auto simp: obind_eq_Ok split: if_splits outcome.splits prod.splits) blast+

lemma map_of_setitem: "map_of (setitem d k v) = (map_of d)(k \<mapsto> v)"
  by (simp add: setitem_def update_conv')

lemma store_roles_other:
  "store_roles ps params i D = (r, D') \<Longrightarrow> k \<notin> StrKey ` set ps \<Longrightarrow> map_of D' k = map_of D k"
proof (induction ps arbitrary: i D)
  case Nil
  then show ?case by simp
next
  case (Cons s ss)
  show ?case
  proof (cases "i + 1 < length params")
    case True
    with Cons.prems(1)
    have "store_roles ss params (i + 1) (setitem D (StrKey s) (params ! (i + 1))) = (r, D')"
      by simp
    from Cons.IH [OF this] Cons.prems(2) show ?thesis
      by (auto simp: map_of_setitem)
  next
    case False
    with Cons.prems(1) show ?thesis by simp
  qed
qed

lemma store_roles_fitted:
  "store_roles ps params i D = (Ok (), D') \<Longrightarrow> j < length ps \<Longrightarrow> ps ! j \<notin> set (drop (Suc j) ps)
     \<Longrightarrow> map_of D' (StrKey (ps ! j)) = Some (params ! (i + j + 1))"
proof (induction ps arbitrary: i D j)
  case Nil
  then show ?case by simp
next
  case (Cons s ss)
  from Cons.prems(1) have lt: "i + 1 < length params"
    by (simp split: if_splits)
  with Cons.prems(1)
  have rest: "store_roles ss params (i + 1) (setitem D (StrKey s) (params ! (i + 1))) = (Ok (), D')"
    by simp
  show ?case
  proof (cases j)
    case 0
    with Cons.prems(3) have "StrKey s \<notin> StrKey ` set ss" by auto
    from store_roles_other [OF rest this] 0 show ?thesis
      by (simp add: map_of_setitem)
  next
    case (Suc j')
    with Cons.prems have "j' < length ss" and "ss ! j' \<notin> set (drop (Suc j') ss)" by simp_all
    from Cons.IH [OF rest this] Suc show ?thesis by simp
  qed
qed

lemma legendre_predicted_other:
  assumes "legendre_predicted env params RefSpectrum scaledFlux (Some D) kw = (r, caller)"
    and "kw_paramstofit kw = Some ps" and "k \<notin> StrKey ` set ps"
  shows "\<exists>D'. caller = Some D' \<and> map_of D' k = map_of D k"
proof (cases "store_roles ps params 0 D")
  case (Pair stored D')
  from store_roles_other [OF Pair assms(3)] have "map_of D' k = map_of D k" .
  then show ?thesis
    using assms(1,2) Pair
    by (auto simp: legendre_predicted_def Let_def split: outcome.splits prod.splits)
qed

lemma l_errorfunc_tominimise_other:
  assumes "l_errorfunc_tominimise env Reg ps RefWavl RefFlux SpectrumY sigma LCRef params D = (r, D')"
    and "k \<notin> StrKey ` set ps"
  shows "map_of D' k = map_of D k"
proof (cases "params = []")
  case True
  with assms(1) show ?thesis
    by (simp add: l_errorfunc_tominimise_def errorfunc_tominimise_def)
next
  case False
  obtain P c where lp: "legendre_predicted env params RefFlux (map (\<lambda>x. x * params ! 0) RefFlux)
      (Some D) \<lparr>kw_WavlCoords = Some RefWavl, kw_LCRef = Some LCRef, kw_ldeg = None,
              kw_paramstofit = Some ps\<rparr> = (P, c)"
    by (cases "legendre_predicted env params RefFlux (map (\<lambda>x. x * params ! 0) RefFlux)
      (Some D) \<lparr>kw_WavlCoords = Some RefWavl, kw_LCRef = Some LCRef, kw_ldeg = None,
              kw_paramstofit = Some ps\<rparr>")
  from legendre_predicted_other [OF lp _ assms(2)]
  obtain D'' where "c = Some D''" and "map_of D'' k = map_of D k" by auto
  then show ?thesis
    using assms(1) False lp
    by (auto simp: l_errorfunc_tominimise_def errorfunc_tominimise_def Let_def)
qed

lemma run_optimizer_invariant:
  assumes "\<And>params s r s'. f params s = (r, s') \<Longrightarrow> P s \<Longrightarrow> P s'"
  shows "run_optimizer S f s = (r, s') \<Longrightarrow> P s \<Longrightarrow> P s'"
proof (induction S arbitrary: s)
  case (Return x)
  then show ?case by simp
next
  case (Fail e)
  then show ?case by simp
next
  case (Call params k)
  obtain y s1 where f: "f params s = (y, s1)" by (cases "f params s")
  from assms [OF f Call.prems(2)] have P1: "P s1" .
  show ?case
  proof (cases y)
    case (Ok a)
    have "k a \<in> range k" by simp
    from Call.IH [OF this _ P1] Call.prems(1) f Ok show ?thesis by simp
  next
    case (Raise e)
    with Call.prems(1) f P1 show ?thesis by simp
  next
    case NonFinite
    with Call.prems(1) f P1 show ?thesis by simp
  qed
qed

lemma ReCalibrateDispersionSolution_l:
  assumes "method \<noteq> []" and "hd method = CHR ''l''"
  shows "ReCalibrateDispersionSolution env SpectrumY RefSpectrum method initial_guess sigma cov Reg
           defaultParamDic scalepixel
       = (case fit_legendre env method (map fst RefSpectrum) (map snd RefSpectrum) SpectrumY
                 initial_guess sigma cov Reg defaultParamDic of
            (fitted, caller, printed) \<Rightarrow>
              (obind fitted (\<lambda>(wavl_sln, popt, pcov).
                 Ok \<lparr>ret_wavl_sln = wavl_sln, ret_popt = popt, ret_pcov = pcov\<rparr>),
               caller, printed))"
  using assms by (simp add: ReCalibrateDispersionSolution_def Let_def)

lemma ReCalibrateDispersionSolution_l_Ok:
  assumes "method \<noteq> []" and "hd method = CHR ''l''"
    and "ReCalibrateDispersionSolution env SpectrumY RefSpectrum method initial_guess sigma cov Reg
           defaultParamDic scalepixel = (Ok r, caller, printed)"
  shows "fit_legendre env method (map fst RefSpectrum) (map snd RefSpectrum) SpectrumY
           initial_guess sigma cov Reg defaultParamDic
         = (Ok (ret_wavl_sln r, ret_popt r, ret_pcov r), caller, printed)"
  using assms(3) unfolding ReCalibrateDispersionSolution_l [OF assms(1,2)]
  by (auto simp: obind_eq_Ok split: prod.splits)

text \<open>
  Claim C8. When the driver returns for a method of the Legendre family and a
  dictionary \<open>D\<close> given by the caller, that dictionary holds afterwards, for every fitted
  role, the fitted value \<^verbatim>\<open>popt[i+1]\<close> (for a letter given twice, that of its last
  place), and for every other key what \<open>D\<close> held. The dictionary and the printed lines
  are the only state of the model: the arrays are values.
\<close>

theorem legendre_fit_updates_defaultParamDic:
  assumes "method \<noteq> []" and "hd method = CHR ''l''"
    and "ReCalibrateDispersionSolution env SpectrumY RefSpectrum method initial_guess sigma cov Reg
           (Some D) scalepixel = (Ok r, caller, printed)"
  shows "\<exists>D'. caller = Some D'
         \<and> (\<forall>i<length (paramstring_of method).
               paramstring_of method ! i \<notin> set (drop (Suc i) (paramstring_of method)) \<longrightarrow>
               map_of D' (StrKey (paramstring_of method ! i)) = Some (ret_popt r ! (i + 1)))
         \<and> (\<forall>k. k \<notin> StrKey ` set (paramstring_of method) \<longrightarrow> map_of D' k = map_of D k)"
proof -
  let ?ps = "paramstring_of method"
  from fit_legendre_Ok [OF ReCalibrateDispersionSolution_l_Ok [OF assms]]
  obtain LCRef p0 x_scale fitoutput PVWdic1 PVWdic2 where
    run: "run_optimizer (least_squares env p0 x_scale)
             (l_errorfunc_tominimise env Reg ?ps (map fst RefSpectrum) (map snd RefSpectrum)
                SpectrumY sigma LCRef) D = (Ok fitoutput, PVWdic1)"
    and store: "store_roles ?ps (ret_popt r) 0 PVWdic1 = (Ok (), PVWdic2)"
    and caller: "caller = Some PVWdic2"
    by auto
  have other1: "map_of PVWdic1 k = map_of D k" if "k \<notin> StrKey ` set ?ps" for k
  proof (rule run_optimizer_invariant [where P = "\<lambda>d. map_of d k = map_of D k", OF _ run])
    fix params s r' s'
    assume "l_errorfunc_tominimise env Reg ?ps (map fst RefSpectrum) (map snd RefSpectrum)
                SpectrumY sigma LCRef params s = (r', s')"
      and "map_of s k = map_of D k"
    with l_errorfunc_tominimise_other [OF _ that] show "map_of s' k = map_of D k" by metis
  qed simp
  have other2: "map_of PVWdic2 k = map_of D k" if "k \<notin> StrKey ` set ?ps" for k
    using store_roles_other [OF store that] other1 [OF that] by simp
  have fitted: "map_of PVWdic2 (StrKey (?ps ! i)) = Some (ret_popt r ! (i + 1))"
    if "i < length ?ps" "?ps ! i \<notin> set (drop (Suc i) ?ps)" for i
    using store_roles_fitted [OF store that] by simp
  show ?thesis using caller other2 fitted by blast
qed








lemma upt_0_2: "[0..<2] = [0, Suc 0]"
  by (simp add: upt_rec)

lemma toy_fields:
  "linspace (toy_env s g) a b n = map (\<lambda>i. a + (b - a) * real i / real (n - 1)) [0..<n]"
  "legfit (toy_env s g) grid y deg = Ok (sum_list y / real (length y) # replicate (nat deg) 0)"
  "legval (toy_env s g) grid c = Ok (map (\<lambda>t. sum_list (map2 (\<lambda>a k. a * t ^ k) c [0..<length c])) grid)"
  "splrep (toy_env s g) Xo y = (case Xo of None \<Rightarrow> Raise TypeError | Some X \<Rightarrow> Ok y)"
  "splev (toy_env s g) Xt tck ext = Ok (take (length Xt) tck)"
  "gradient (toy_env s g) X = Ok (map (\<lambda>x. 1) X)"
  "curve_fit (toy_env s g) xdata ydata p0 sigma = Call p0 (\<lambda>y. Return (p0, []))"
  "least_squares (toy_env s g) p0 x_scale
     = Call p0 (\<lambda>r. Return \<lparr>fit_x = p0, fit_status = s, fit_jac = []\<rparr>)"
  "calculate_cov_matrix_fromscipylsq (toy_env s g) fo = Ok (fit_jac fo)"
  "global_ldeg (toy_env s g) = g"
  by (simp_all add: toy_env_def)

lemma LCTransformMatrixP_0: "LCTransformMatrixP p 0 = [[1]]"
  by (simp add: LCTransformMatrixP_def identity_def range_step2_def)

lemma Transform_single:
  "TransformLegendreCoeffs [c] [(StrKey ''v'', v), (StrKey ''p'', p), (StrKey ''w'', w)] False
     = Ok [(c + w) * (1 + v)]"
  by (simp add: TransformLegendreCoeffs_def wavl_shifted_def pixel_shifted_def getitem_def
      LCTransformMatrixP_0 matmul_def)

lemma isdigit_chars: "isdigit CHR ''0''" "\<not> isdigit CHR ''w''" "\<not> isdigit CHR ''p''"
  "\<not> isdigit CHR ''v''"
  by (simp_all add: isdigit_def)

lemma paramstring_lw0: "paramstring_of ''lw0'' = [''w'']" "filter isdigit ''w0'' = ''0''"
  "int_of_digits ''0'' = 0"
  by (simp_all add: paramstring_of_def isdigit_def int_of_digits_def)

lemma toy_l_errorfunc_w_any:
  "l_errorfunc_tominimise (toy_env s g) 0 [''w''] [4000, 5000] [1, 2] [1, 2] None [4500]
     [1, 1 / 1000] [(StrKey ''v'', v), (StrKey ''p'', 0), (StrKey ''w'', w)]
   = (Ok [0, 0, 0], [(StrKey ''v'', v), (StrKey ''p'', 0), (StrKey ''w'', 1 / 1000)])"
  by (simp add: l_errorfunc_tominimise_def errorfunc_tominimise_def legendre_predicted_def
      toy_fields upt_0_2 setitem_def normP_of_def Transform_single residual_vector_def
      broadcast2_def fdiv_def fsqrt_def returned_array_def)

lemma toy_fit_legendre_lw0:
  "fit_legendre (toy_env s g) ''lw0'' [4000, 5000] [1, 2] [1, 2] None None False 0
     (Some [(StrKey ''v'', v), (StrKey ''p'', 0), (StrKey ''w'', 0)])
   = (Ok ([(4500 + 1 / 1000) * (1 + v), (4500 + 1 / 1000) * (1 + v)], [1, 1 / 1000], None),
      Some [(StrKey ''v'', v), (StrKey ''p'', 0), (StrKey ''w'', 1 / 1000)],
      [([''w''], s)])"
  by (simp add: fit_legendre_def paramstring_lw0 isdigit_chars toy_fields upt_0_2 Initp_def
      x_scaledic_def getitem_def toy_l_errorfunc_w_any setitem_def normP_of_def Transform_single)


lemma toy_ReCal_lw0:
  "ReCalibrateDispersionSolution (toy_env s g) [1, 2] [(4000, 1), (5000, 2)] ''lw0'' None None
     False 0 (Some [(StrKey ''v'', v), (StrKey ''p'', 0), (StrKey ''w'', 0)]) True
   = (Ok \<lparr>ret_wavl_sln = [(4500 + 1 / 1000) * (1 + v), (4500 + 1 / 1000) * (1 + v)],
          ret_popt = [1, 1 / 1000], ret_pcov = None\<rparr>,
      Some [(StrKey ''v'', v), (StrKey ''p'', 0), (StrKey ''w'', 1 / 1000)],
      [([''w''], s)])"
  using toy_fit_legendre_lw0 [of s g v]
  by (simp add: ReCalibrateDispersionSolution_l)


text \<open>The method \<^verbatim>\<open>'lw0'\<close> with a dictionary that holds \<open>v = 5\<close>.\<close>

theorem legendre_fit_updates_defaultParamDic_witness:
  "\<exists>D'. fst (snd (ReCalibrateDispersionSolution (toy_env 0 None) [1, 2] [(4000, 1), (5000, 2)]
                    ''lw0'' None None False 0
                    (Some [(StrKey ''v'', 5), (StrKey ''p'', 0), (StrKey ''w'', 0)]) True)) = Some D'
        \<and> map_of D' (StrKey ''w'') = Some (1 / 1000)
        \<and> map_of D' (StrKey ''v'') = Some 5
        \<and> map_of D' (StrKey ''p'') = Some 0"
proof -
  let ?D = "[(StrKey ''v'', 5), (StrKey ''p'', 0), (StrKey ''w'', 0 :: real)]"
  have ne: "''lw0'' \<noteq> []" and l: "hd ''lw0'' = CHR ''l''" by simp_all
  from legendre_fit_updates_defaultParamDic [OF ne l toy_ReCal_lw0 [of 0 None 5]]
  obtain D' where D': "Some [(StrKey ''v'', 5), (StrKey ''p'', 0), (StrKey ''w'', 1 / 1000)] = Some D'"
    and fitted: "\<forall>i<length (paramstring_of ''lw0'').
               paramstring_of ''lw0'' ! i \<notin> set (drop (Suc i) (paramstring_of ''lw0'')) \<longrightarrow>
               map_of D' (StrKey (paramstring_of ''lw0'' ! i)) = Some ([1, 1 / 1000] ! (i + 1))"
    and other: "\<forall>k. k \<notin> StrKey ` set (paramstring_of ''lw0'') \<longrightarrow> map_of D' k = map_of ?D k"
    by auto
  from fitted [rule_format, of 0] have "map_of D' (StrKey ''w'') = Some (1 / 1000)"
    by (simp add: paramstring_lw0)
  moreover from other [rule_format, of "StrKey ''v''"] have "map_of D' (StrKey ''v'') = Some 5"
    by (simp add: paramstring_lw0)
  moreover from other [rule_format, of "StrKey ''p''"] have "map_of D' (StrKey ''p'') = Some 0"
    by (simp add: paramstring_lw0)
  ultimately show ?thesis using D' by (simp add: toy_ReCal_lw0)
qed








lemma toy_transformed_spectrum_v:
  "transformed_spectrum (toy_env s g) [1, 2] [1, 100] (Some ''v'') (Some [4000, 5000]) None
     = Ok (Some [1, 2])"
  by (simp add: transformed_spectrum_def update_coeffs_with_defaults_def toy_fields)

text \<open>The method \<^verbatim>\<open>'v3'\<close> runs the velocity fit.\<close>

theorem trailing_characters_ignored_witness:
  "ReCalibrateDispersionSolution (toy_env 1 None) [1, 2] [(4000, 1), (5000, 2)] ''v3'' None None
     False 0 None True
   = (Ok \<lparr>ret_wavl_sln = [4000 * (1 + 100 / 299792458), 5000 * (1 + 100 / 299792458)],
          ret_popt = [1, 100], ret_pcov = None\<rparr>, None, [])"
  using trailing_characters_ignored [of "toy_env 1 None" "[1, 2]" "[(4000, 1), (5000, 2)]" "''3''"
      None None False 0 None True, THEN conjunct2, THEN conjunct2, THEN conjunct1]
  by (simp add: finish_fit_def fit_velocity_def run_curve_fit_def toy_fields
      toy_transformed_spectrum_v returned_array_def speed_of_light_def)

end
